theory Spec2Isabelle
  imports Main "HOL-Library.Sublist" "HOL-Library.Word"
begin

section \<open>JavaScript strings, errors and property lookup\<close>

text \<open>
  Strings are lists of characters. \<open>String.prototype.toLowerCase\<close> is modelled on the
  ASCII letters; every key of the tables below is ASCII and contains no \<open>k\<close>, and the
  only code points outside ASCII whose lower case contains an ASCII letter are
  U+212A (to \<open>k\<close>) and U+0130 (to \<open>i\<close> followed by U+0307), so no string with a
  character outside ASCII lowers to a key of these tables.
\<close>

definition toLowerChar :: "char \<Rightarrow> char" where
  "toLowerChar c =
     (case map_of (zip ''ABCDEFGHIJKLMNOPQRSTUVWXYZ'' ''abcdefghijklmnopqrstuvwxyz'') c of
        Some l \<Rightarrow> l
      | None \<Rightarrow> c)"

definition toLowerCase :: "string \<Rightarrow> string" where
  "toLowerCase s = map toLowerChar s"

definition startsWith :: "string \<Rightarrow> string \<Rightarrow> bool" where
  "startsWith s p = prefix p s"

definition endsWith :: "string \<Rightarrow> string \<Rightarrow> bool" where
  "endsWith s p = suffix p s"

text \<open>A thrown \<open>Error\<close> with its message.\<close>

datatype error = Error (message: string)

text \<open>
  \<open>obj[key]\<close> on an object literal: an own property gives its value; the table's
  prototype is \<open>Object.prototype\<close>, whose members (\<open>constructor\<close>, \<open>__proto__\<close>, ...)
  are found under their names and are all truthy (functions, or the prototype object
  itself); any other key gives \<open>undefined\<close>.
\<close>

datatype 'a lookup = Undefined | Own 'a | Inherited string

definition object_prototype_keys :: "string list" where
  "object_prototype_keys =
     [''constructor'', ''__proto__'', ''hasOwnProperty'', ''isPrototypeOf'',
      ''propertyIsEnumerable'', ''toLocaleString'', ''toString'', ''valueOf'',
      ''__defineGetter__'', ''__defineSetter__'', ''__lookupGetter__'', ''__lookupSetter__'']"

definition js_get :: "(string \<times> 'a) list \<Rightarrow> string \<Rightarrow> 'a lookup" where
  "js_get obj k =
     (case map_of obj k of
        Some v \<Rightarrow> Own v
      | None \<Rightarrow> if k \<in> set object_prototype_keys then Inherited k else Undefined)"

text \<open>JavaScript truthiness of a looked-up value: only \<open>undefined\<close> is falsy here.\<close>

fun truthy :: "'a lookup \<Rightarrow> bool" where
  "truthy Undefined = False"
| "truthy (Own v) = True"
| "truthy (Inherited k) = True"

section \<open>types.ts\<close>

datatype NormalizedPlatform = Darwin | Linux | Win32

datatype NormalizedArch = X64 | Arm64

record TargetDescriptor =
  artifact :: string
  binaryName :: string

record InstallContext =
  platform :: string
  arch :: string
  version :: string
  baseUrl :: string
  repo :: string

record ReleasePlan =
  plan_platform :: "NormalizedPlatform lookup"
  plan_arch :: "NormalizedArch lookup"
  target :: TargetDescriptor
  tag :: string
  artifactUrl :: string
  checksumUrl :: string

section \<open>platform.ts\<close>

definition PLATFORM_ALIASES :: "(string \<times> NormalizedPlatform) list" where
  "PLATFORM_ALIASES =
     [(''darwin'', Darwin), (''macos'', Darwin), (''macosx'', Darwin), (''osx'', Darwin),
      (''linux'', Linux), (''win32'', Win32), (''windows'', Win32)]"

definition ARCH_ALIASES :: "(string \<times> NormalizedArch) list" where
  "ARCH_ALIASES =
     [(''x64'', X64), (''amd64'', X64), (''x86_64'', X64),
      (''arm64'', Arm64), (''aarch64'', Arm64)]"

text \<open>The argument is \<open>string | undefined\<close>; \<open>!value\<close> holds of \<open>undefined\<close> and of the empty string.\<close>

definition normalizePlatform :: "string option \<Rightarrow> NormalizedPlatform lookup" where
  "normalizePlatform v =
     (case v of
        None \<Rightarrow> Undefined
      | Some s \<Rightarrow> if s = [] then Undefined else js_get PLATFORM_ALIASES (toLowerCase s))"

definition normalizeArch :: "string option \<Rightarrow> NormalizedArch lookup" where
  "normalizeArch v =
     (case v of
        None \<Rightarrow> Undefined
      | Some s \<Rightarrow> if s = [] then Undefined else js_get ARCH_ALIASES (toLowerCase s))"

definition normalizePlatformOrThrow :: "string \<Rightarrow> error + NormalizedPlatform lookup" where
  "normalizePlatformOrThrow v =
     (let normalized = normalizePlatform (Some v) in
      if \<not> truthy normalized then Inl (Error (''Unsupported platform: '' @ v))
      else Inr normalized)"

definition normalizeArchOrThrow :: "string \<Rightarrow> error + NormalizedArch lookup" where
  "normalizeArchOrThrow v =
     (let normalized = normalizeArch (Some v) in
      if \<not> truthy normalized then Inl (Error (''Unsupported architecture: '' @ v))
      else Inr normalized)"

section \<open>targets.ts\<close>

definition TARGET_MATRIX :: "NormalizedPlatform \<Rightarrow> (NormalizedArch \<times> TargetDescriptor) list" where
  "TARGET_MATRIX p =
     (case p of
        Darwin \<Rightarrow>
          [(Arm64, \<lparr>artifact = ''curlpit-aarch64-apple-darwin.tar.xz'', binaryName = ''curlpit''\<rparr>),
           (X64, \<lparr>artifact = ''curlpit-x86_64-apple-darwin.tar.xz'', binaryName = ''curlpit''\<rparr>)]
      | Linux \<Rightarrow>
          [(X64, \<lparr>artifact = ''curlpit-x86_64-unknown-linux-gnu.tar.xz'', binaryName = ''curlpit''\<rparr>),
           (Arm64, \<lparr>artifact = ''curlpit-aarch64-unknown-linux-gnu.tar.xz'', binaryName = ''curlpit''\<rparr>)]
      | Win32 \<Rightarrow>
          [(X64, \<lparr>artifact = ''curlpit-x86_64-pc-windows-msvc.zip'', binaryName = ''curlpit.exe''\<rparr>)])"

text \<open>
  \<open>TARGET_MATRIX[platform]?.[arch]\<close>. A value that is not one of the tags (a member
  of \<open>Object.prototype\<close> that the alias lookup let through) is turned into a property
  name that no table has, so the lookup gives \<open>undefined\<close>.
\<close>

fun resolveTarget :: "NormalizedPlatform lookup \<Rightarrow> NormalizedArch lookup \<Rightarrow> TargetDescriptor option" where
  "resolveTarget (Own p) (Own a) = map_of (TARGET_MATRIX p) a"
| "resolveTarget _ _ = None"

definition determineBinaryName :: "string \<Rightarrow> string \<Rightarrow> string option" where
  "determineBinaryName p a =
     (let normalizedPlatform = normalizePlatform (Some p);
          normalizedArch = normalizeArch (Some a)
      in if \<not> truthy normalizedPlatform \<or> \<not> truthy normalizedArch then None
         else map_option binaryName (resolveTarget normalizedPlatform normalizedArch))"

section \<open>release.ts\<close>

text \<open>\<open>input.version.startsWith("v") ? input.version : `v${input.version}`\<close>\<close>

definition release_tag :: "string \<Rightarrow> string" where
  "release_tag v = (if startsWith v ''v'' then v else ''v'' @ v)"

text \<open>\<open>input.baseUrl.replace(/\/$/, "")\<close>: one slash at the very end is removed.\<close>

definition strip_trailing_slash :: "string \<Rightarrow> string" where
  "strip_trailing_slash b = (if endsWith b ''/'' then butlast b else b)"

definition planRelease :: "InstallContext \<Rightarrow> error + ReleasePlan" where
  "planRelease input =
     (case normalizePlatformOrThrow (platform input) of
        Inl e \<Rightarrow> Inl e
      | Inr p \<Rightarrow>
     (case normalizeArchOrThrow (arch input) of
        Inl e \<Rightarrow> Inl e
      | Inr a \<Rightarrow>
     (case resolveTarget p a of
        None \<Rightarrow>
          Inl (Error (''Unsupported platform/architecture combination: ''
                        @ platform input @ ''/'' @ arch input))
      | Some t \<Rightarrow>
          (let tg = release_tag (version input);
               base = strip_trailing_slash (baseUrl input);
               url = base @ ''/'' @ repo input @ ''/releases/download/'' @ tg @ ''/'' @ artifact t
           in Inr \<lparr>plan_platform = p, plan_arch = a, target = t, tag = tg,
                    artifactUrl = url, checksumUrl = url @ ''.sha256''\<rparr>))))"

text \<open>
  The raw pair \<open>(platform, architecture)\<close> resolves to a target descriptor when the
  matrix has an entry for the normalised pair.
\<close>

definition resolves :: "string \<Rightarrow> string \<Rightarrow> TargetDescriptor option" where
  "resolves p a = resolveTarget (normalizePlatform (Some p)) (normalizeArch (Some a))"

text \<open>\<open>s.includes(t)\<close>: \<open>t\<close> occurs in \<open>s\<close> as a contiguous run of characters.\<close>

definition str_includes :: "string \<Rightarrow> string \<Rightarrow> bool" where
  "str_includes s t = sublist t s"

section \<open>The file system and the console\<close>

text \<open>
  The installer's world: the files and directories by absolute, normalised POSIX path
  (no symbolic links), the paths that the operating system refuses to remove (in use,
  or protected), and the lines written to the console. A regular file has its content
  and its permission bits, a directory its permission bits. The calling user owns every
  entry and is not the superuser, so the owner's bits decide every access check. The
  root directory is always there; the caller may search it and may not write to it.
\<close>

type_synonym bytes = "8 word list"

datatype node = File bytes nat | Directory nat

record world =
  files :: "string \<rightharpoonup> node"
  busy :: "string list"
  console :: "string list"

text \<open>
  \<open>resolve\<close>, \<open>join\<close> and \<open>basename\<close> of \<open>node:path\<close> are parameters of the
  functions that call them. \<open>posix_join\<close> is what \<open>join\<close> gives for a normalised
  directory and a plain file name.
\<close>

definition posix_join :: "string \<Rightarrow> string \<Rightarrow> string" where
  "posix_join d n = d @ ''/'' @ n"

text \<open>\<open>basename\<close> of a path that does not end in a slash: what follows the last slash.\<close>

definition posix_basename :: "string \<Rightarrow> string" where
  "posix_basename p = rev (takeWhile (\<lambda>c. c \<noteq> CHR ''/'') (rev p))"

text \<open>The directory that holds a path: what precedes the last slash, the root for a top-level path.\<close>

definition posix_dirname :: "string \<Rightarrow> string" where
  "posix_dirname p =
     (let d = rev (tl (dropWhile (\<lambda>c. c \<noteq> CHR ''/'') (rev p)))
      in if d = [] then ''/'' else d)"

text \<open>A path between single quotes, as the messages of the file-system errors show it.\<close>

definition quoted :: "string \<Rightarrow> string" where
  "quoted p = [CHR 0x27] @ p @ [CHR 0x27]"

text \<open>A path is inside \<open>d\<close> when it is \<open>d\<close> or lies below it.\<close>

definition inside :: "string \<Rightarrow> string \<Rightarrow> bool" where
  "inside d p = (p = d \<or> prefix (d @ ''/'') p)"

text \<open>The owner's bits: read is \<open>0o400\<close>, write is \<open>0o200\<close>, execute or search is \<open>0o100\<close>.\<close>

definition readable :: "nat \<Rightarrow> bool" where
  "readable m = ((m div 256) mod 2 = 1)"

definition writable :: "nat \<Rightarrow> bool" where
  "writable m = ((m div 128) mod 2 = 1)"

definition owner_executable :: "nat \<Rightarrow> bool" where
  "owner_executable m = ((m div 64) mod 2 = 1)"

text \<open>The entry at a path; the root directory has mode \<open>0o555\<close> for the caller.\<close>

definition node_at :: "world \<Rightarrow> string \<Rightarrow> node option" where
  "node_at w p = (if p = ''/'' then Some (Directory 365) else files w p)"

text \<open>
  A path can be reached when every directory above it is there and may be searched.
  The measure of the recursion is the length of the path, with the root below all.
\<close>

definition path_depth :: "string \<Rightarrow> nat" where
  "path_depth p = (if p = ''/'' then 0 else length p)"

lemma posix_dirname_depth:
  assumes "p \<noteq> ''/''" "p \<noteq> []"
  shows "path_depth (posix_dirname p) < path_depth p"
proof -
  let ?d = "rev (tl (dropWhile (\<lambda>c. c \<noteq> CHR ''/'') (rev p)))"
  have le: "length (dropWhile (\<lambda>c. c \<noteq> CHR ''/'') (rev p)) \<le> length p"
    using length_dropWhile_le [of "\<lambda>c. c \<noteq> CHR ''/''" "rev p"] by simp
  show ?thesis
  proof (cases "?d = []")
    case True
    then have "posix_dirname p = ''/''" by (simp add: posix_dirname_def)
    with assms show ?thesis by (simp add: path_depth_def)
  next
    case False
    then have d: "posix_dirname p = ?d" by (simp add: posix_dirname_def Let_def)
    have "length ?d < length p"
    proof (cases "dropWhile (\<lambda>c. c \<noteq> CHR ''/'') (rev p)")
      case Nil
      with False show ?thesis by simp
    next
      case (Cons x xs)
      with le show ?thesis by simp
    qed
    moreover have "path_depth ?d \<le> length ?d" by (simp add: path_depth_def)
    moreover have "path_depth p = length p" using assms by (simp add: path_depth_def)
    ultimately show ?thesis unfolding d by linarith
  qed
qed

function reachable :: "world \<Rightarrow> string \<Rightarrow> bool" where
  "reachable w p =
     (if p = ''/'' \<or> p = [] then True
      else (case node_at w (posix_dirname p) of
              Some (Directory m) \<Rightarrow> owner_executable m \<and> reachable w (posix_dirname p)
            | _ \<Rightarrow> False))"
  by pat_completeness auto
termination
  by (relation "measure (\<lambda>(w, p). path_depth p)") (simp_all add: posix_dirname_depth)

text \<open>\<open>access(path, X_OK)\<close>.\<close>

definition access_X_OK :: "world \<Rightarrow> string \<Rightarrow> error + unit" where
  "access_X_OK w p =
     (if \<not> reachable w p
      then Inl (Error (''ENOENT: no such file or directory, access '' @ quoted p))
      else (case node_at w p of
        None \<Rightarrow> Inl (Error (''ENOENT: no such file or directory, access '' @ quoted p))
      | Some (Directory m) \<Rightarrow>
          if owner_executable m then Inr ()
          else Inl (Error (''EACCES: permission denied, access '' @ quoted p))
      | Some (File c m) \<Rightarrow>
          if owner_executable m then Inr ()
          else Inl (Error (''EACCES: permission denied, access '' @ quoted p))))"

text \<open>
  \<open>mkdir(path, { recursive: true })\<close>: an existing directory is left as it is, and every
  missing directory above the path is made before the path itself, each where the
  caller may write, with mode \<open>0o755\<close> (\<open>0o777\<close> under the usual mask \<open>0o022\<close>).
\<close>

function mkdir_recursive :: "world \<Rightarrow> string \<Rightarrow> (error + unit) \<times> world" where
  "mkdir_recursive w p =
     (case node_at w p of
        Some (File c m) \<Rightarrow> (Inl (Error (''EEXIST: file already exists, mkdir '' @ quoted p)), w)
      | Some (Directory m) \<Rightarrow>
          if reachable w p then (Inr (), w)
          else (Inl (Error (''EACCES: permission denied, mkdir '' @ quoted p)), w)
      | None \<Rightarrow>
          if p = [] then (Inl (Error ''ENOENT: no such file or directory, mkdir''), w)
          else
            (case mkdir_recursive w (posix_dirname p) of
               (Inl e, w1) \<Rightarrow> (Inl e, w1)
             | (Inr u, w1) \<Rightarrow>
                 (case node_at w1 (posix_dirname p) of
                    Some (Directory m) \<Rightarrow>
                      if writable m \<and> owner_executable m
                      then (Inr (), w1\<lparr>files := (files w1)(p \<mapsto> Directory 493)\<rparr>)
                      else (Inl (Error (''EACCES: permission denied, mkdir '' @ quoted p)), w1)
                  | _ \<Rightarrow> (Inl (Error (''ENOTDIR: not a directory, mkdir '' @ quoted p)), w1))))"
  by pat_completeness auto
termination
proof (relation "measure (\<lambda>(w, p). path_depth p)")
  fix w :: world and p :: string
  assume "node_at w p = None" "p \<noteq> []"
  then have "p \<noteq> ''/''" by (auto simp: node_at_def)
  with \<open>p \<noteq> []\<close> show "((w, posix_dirname p), (w, p)) \<in> measure (\<lambda>(w, p). path_depth p)"
    by (simp add: posix_dirname_depth)
qed simp

text \<open>
  \<open>copyFile(src, dest)\<close>: the source is opened for reading and the destination for
  writing, made if it is not there; the destination gets the content and the mode of
  the source.
\<close>

definition copyFile :: "world \<Rightarrow> string \<Rightarrow> string \<Rightarrow> (error + unit) \<times> world" where
  "copyFile w src dst =
     (let fail = (\<lambda>reason.
            (Inl (Error (reason @ '', copyfile '' @ quoted src @ '' -> '' @ quoted dst)), w))
      in if \<not> reachable w src then fail ''ENOENT: no such file or directory''
         else (case node_at w src of
           None \<Rightarrow> fail ''ENOENT: no such file or directory''
         | Some (Directory m) \<Rightarrow> fail ''EISDIR: illegal operation on a directory''
         | Some (File c m) \<Rightarrow>
             if \<not> readable m then fail ''EACCES: permission denied''
             else if \<not> reachable w dst then fail ''ENOENT: no such file or directory''
             else
               (case node_at w dst of
                  Some (Directory dm) \<Rightarrow> fail ''EISDIR: illegal operation on a directory''
                | Some (File dc dm) \<Rightarrow>
                    if writable dm then (Inr (), w\<lparr>files := (files w)(dst \<mapsto> File c m)\<rparr>)
                    else fail ''EACCES: permission denied''
                | None \<Rightarrow>
                    (case node_at w (posix_dirname dst) of
                       Some (Directory pm) \<Rightarrow>
                         if writable pm
                         then (Inr (), w\<lparr>files := (files w)(dst \<mapsto> File c m)\<rparr>)
                         else fail ''EACCES: permission denied''
                     | _ \<Rightarrow> fail ''ENOENT: no such file or directory''))))"

text \<open>\<open>chmod(path, 0o755)\<close>; \<open>0o755\<close> is 493. The owner may always set the mode.\<close>

definition chmod :: "world \<Rightarrow> string \<Rightarrow> nat \<Rightarrow> (error + unit) \<times> world" where
  "chmod w p m =
     (if \<not> reachable w p
      then (Inl (Error (''ENOENT: no such file or directory, chmod '' @ quoted p)), w)
      else (case files w p of
        None \<Rightarrow> (Inl (Error (''ENOENT: no such file or directory, chmod '' @ quoted p)), w)
      | Some (Directory m0) \<Rightarrow> (Inr (), w\<lparr>files := (files w)(p \<mapsto> Directory m)\<rparr>)
      | Some (File c m0) \<Rightarrow> (Inr (), w\<lparr>files := (files w)(p \<mapsto> File c m)\<rparr>)))"

text \<open>
  \<open>rm(path, { recursive: true, force: true })\<close>: a missing path is no error; the
  removal fails when the operating system refuses to remove something inside the path,
  and then what could be removed is gone: every entry inside the path that is not
  refused and holds nothing refused.
\<close>

definition rm_recursive_force :: "world \<Rightarrow> string \<Rightarrow> (error + unit) \<times> world" where
  "rm_recursive_force w p =
     (if \<exists>b \<in> set (busy w). inside p b
      then (Inl (Error (''EBUSY: resource busy or locked, rm '' @ quoted p)),
            w\<lparr>files := (\<lambda>k. if inside p k \<and> \<not> (\<exists>b \<in> set (busy w). inside k b) then None
                            else files w k)\<rparr>)
      else (Inr (), w\<lparr>files := (\<lambda>k. if inside p k then None else files w k)\<rparr>))"

definition console_log :: "world \<Rightarrow> string \<Rightarrow> world" where
  "console_log w line = w\<lparr>console := console w @ [line]\<rparr>"

section \<open>download.ts: verifyChecksum\<close>

text \<open>
  \<open>hash.digest("hex")\<close>: two lower-case hexadecimal digits for each byte of the digest.
  The SHA-256 function of \<open>node:crypto\<close> is the parameter \<open>sha256\<close>.
\<close>

definition hex_digit :: "nat \<Rightarrow> char" where
  "hex_digit n = ''0123456789abcdef'' ! (n mod 16)"

definition byte_hex :: "8 word \<Rightarrow> string" where
  "byte_hex b = [hex_digit (unat b div 16), hex_digit (unat b mod 16)]"

definition digest_hex :: "bytes \<Rightarrow> string" where
  "digest_hex bs = concat (map byte_hex bs)"


section \<open>filesystem.ts\<close>

definition ensureDir :: "world \<Rightarrow> string \<Rightarrow> (error + unit) \<times> world" where
  "ensureDir w p = mkdir_recursive w p"

text \<open>\<open>cleanup\<close> awaits \<open>rm\<close> with no handler: a failed removal is a rejection of \<open>cleanup\<close>.\<close>

definition cleanup :: "world \<Rightarrow> string \<Rightarrow> (error + unit) \<times> world" where
  "cleanup w p = rm_recursive_force w p"

definition isExecutable :: "world \<Rightarrow> string \<Rightarrow> bool" where
  "isExecutable w p = (case access_X_OK w p of Inl e \<Rightarrow> False | Inr u \<Rightarrow> True)"

definition installLocalBinary ::
  "(string \<Rightarrow> string) \<Rightarrow> (string \<Rightarrow> string \<Rightarrow> string) \<Rightarrow> world \<Rightarrow>
     string \<Rightarrow> string \<Rightarrow> string \<Rightarrow> bool \<Rightarrow> (error + string) \<times> world" where
  "installLocalBinary resolve join w sourcePath destinationDir name makeExecutable =
     (let resolved = resolve sourcePath;
          exists = isExecutable w resolved
      in if \<not> exists
         then (Inl (Error (''Local binary not found or not executable: '' @ resolved)), w)
         else
           (case ensureDir w destinationDir of
              (Inl e, w1) \<Rightarrow> (Inl e, w1)
            | (Inr u1, w1) \<Rightarrow>
                (let destinationPath = join destinationDir name in
                 case copyFile w1 resolved destinationPath of
                   (Inl e, w2) \<Rightarrow> (Inl e, w2)
                 | (Inr u2, w2) \<Rightarrow>
                     if makeExecutable
                     then (case chmod w2 destinationPath 493 of
                             (Inl e, w3) \<Rightarrow> (Inl e, w3)
                           | (Inr u3, w3) \<Rightarrow> (Inr destinationPath, w3))
                     else (Inr destinationPath, w2))))"

section \<open>The installation attempts: try, catch, finally\<close>

text \<open>
  How the installer's process ends: it runs to completion, or \<open>process.exit(n)\<close>
  (\<open>Deno.exit(n)\<close>) ends it at once. The body of the \<open>try\<close> block (download,
  checksum, extraction, installation) is a parameter: a step that changes the world and
  returns or throws.
\<close>

datatype ending = Completed | Exited nat

type_synonym step = "world \<Rightarrow> (error + unit) \<times> world"

text \<open>
  \<open>packages/npm/src/install.ts\<close>: \<open>main\<close> from its \<open>try\<close> on, under
  \<open>main().catch\<close>. The \<open>catch\<close> block ends the process, so the \<open>finally\<close> block
  runs only after a body that returned; \<open>cleanup\<close> is awaited there with no handler, and
  its rejection is \<open>main\<close>'s.
\<close>

definition npm_install_attempt :: "step \<Rightarrow> string \<Rightarrow> world \<Rightarrow> ending \<times> world" where
  "npm_install_attempt body tempDir w =
     (case body w of
        (Inl e, w1) \<Rightarrow>
          (Exited 1, console_log w1 (''Failed to install curlpit binary: '' @ message e))
      | (Inr u, w1) \<Rightarrow>
          (case cleanup w1 tempDir of
             (Inl e, w2) \<Rightarrow>
               (Exited 1,
                console_log w2 (''Unexpected error during curlpit installation: '' @ message e))
           | (Inr u', w2) \<Rightarrow> (Completed, w2)))"

text \<open>The earlier npm script: \<open>cleanupTemp\<close> catches the error of \<open>rm\<close> and drops it.\<close>

definition cleanupTemp :: "world \<Rightarrow> string \<Rightarrow> world" where
  "cleanupTemp w dir =
     (case rm_recursive_force w dir of
        (Inl e, w1) \<Rightarrow> w1
      | (Inr u, w1) \<Rightarrow> w1)"

definition legacy_install_attempt :: "step \<Rightarrow> string \<Rightarrow> world \<Rightarrow> ending \<times> world" where
  "legacy_install_attempt body tempDir w =
     (case body w of
        (Inl e, w1) \<Rightarrow>
          (Exited 1, console_log w1 (''Failed to install curlpit binary: '' @ message e))
      | (Inr u, w1) \<Rightarrow> (Completed, cleanupTemp w1 tempDir))"

text \<open>
  The Deno installer: \<open>Deno.remove(tempDir, { recursive: true })\<close> also fails on a
  missing path; the \<open>finally\<close> block catches whatever it throws.
\<close>

definition deno_remove_recursive :: "world \<Rightarrow> string \<Rightarrow> (error + unit) \<times> world" where
  "deno_remove_recursive w p =
     (if files w p = None
      then (Inl (Error (''NotFound: No such file or directory, remove '' @ quoted p)), w)
      else rm_recursive_force w p)"

definition deno_install_attempt :: "step \<Rightarrow> string \<Rightarrow> world \<Rightarrow> ending \<times> world" where
  "deno_install_attempt body tempDir w =
     (case body w of
        (Inl e, w1) \<Rightarrow> (Exited 1, console_log w1 (''curlpit installation failed: '' @ message e))
      | (Inr u, w1) \<Rightarrow>
          (Completed,
           case deno_remove_recursive w1 tempDir of
             (Inl e, w2) \<Rightarrow> w2
           | (Inr u', w2) \<Rightarrow> w2))"

section \<open>Subprocesses and archive extraction\<close>

text \<open>
  What running an external tool gives: the spawn fails, or the process ends with an exit
  code (none when a signal ended it: the code is \<open>null\<close>) after writing a text to its
  standard error. The operating system is the parameter \<open>spawn\<close>.
\<close>

datatype process_result = SpawnError error | Exit "nat option" string

type_synonym spawner = "string \<Rightarrow> string list \<Rightarrow> process_result"

fun show_nat :: "nat \<Rightarrow> string" where
  "show_nat n =
     (if n < 10 then [''0123456789'' ! n]
      else show_nat (n div 10) @ [''0123456789'' ! (n mod 10)])"

fun show_code :: "nat option \<Rightarrow> string" where
  "show_code None = ''null''"
| "show_code (Some n) = show_nat n"

text \<open>
  \<open>runCommand\<close> of the shared extractor: the child inherits the installer's standard
  streams (\<open>stdio: "inherit"\<close>), and the promise is rejected on a spawn error and on
  every exit code other than 0.
\<close>

definition runCommand :: "spawner \<Rightarrow> string \<Rightarrow> string list \<Rightarrow> error + unit" where
  "runCommand spawn command args =
     (case spawn command args of
        SpawnError e \<Rightarrow> Inl e
      | Exit code err \<Rightarrow>
          if code = Some 0 then Inr ()
          else Inl (Error (command @ '' exited with code '' @ show_code code)))"

text \<open>
  The content of a directory as \<open>readdir\<close> lists it, in its order: regular files,
  directories with their own content, symbolic links with what they lead to, and
  entries that are none of these. A symbolic link is neither a file nor a directory to
  \<open>readdir\<close>; \<open>stat\<close> follows it, and throws when it leads nowhere.
\<close>

datatype link_target = ToFile | ToDirectory | ToOther | Dangling

datatype dirent =
  FileEntry string | DirEntry string "dirent list" | LinkEntry string link_target
  | OtherEntry string

fun entry_name :: "dirent \<Rightarrow> string" where
  "entry_name (FileEntry n) = n"
| "entry_name (DirEntry n sub) = n"
| "entry_name (LinkEntry n t) = n"
| "entry_name (OtherEntry n) = n"

text \<open>\<open>if (nested)\<close> and \<open>if (!binaryPath)\<close>: the empty string is falsy, as \<open>undefined\<close> is.\<close>

fun locateBinary :: "(string \<Rightarrow> string \<Rightarrow> string) \<Rightarrow> string \<Rightarrow> dirent list \<Rightarrow> string option" where
  "locateBinary join dir [] = None"
| "locateBinary join dir (FileEntry n # es) =
     (if startsWith n ''curlpit'' then Some (join dir n) else locateBinary join dir es)"
| "locateBinary join dir (DirEntry n sub # es) =
     (case locateBinary join (join dir n) sub of
        Some nested \<Rightarrow> if nested \<noteq> [] then Some nested else locateBinary join dir es
      | None \<Rightarrow> locateBinary join dir es)"
| "locateBinary join dir (LinkEntry n t # es) = locateBinary join dir es"
| "locateBinary join dir (OtherEntry n # es) = locateBinary join dir es"

record ExtractOptions =
  archivePath :: string
  tempDir :: string
  extract_platform :: NormalizedPlatform
  tarPath :: "string option"

text \<open>
  \<open>extractArchive\<close> of the shared extractor. \<open>scratch\<close> is the content of the scratch
  directory when the search runs, after the tool has written into it.
\<close>

definition extractArchive ::
  "(string \<Rightarrow> string \<Rightarrow> string) \<Rightarrow> spawner \<Rightarrow> dirent list \<Rightarrow> ExtractOptions \<Rightarrow> error + string" where
  "extractArchive join spawn scratch opts =
     (let tar = (case tarPath opts of None \<Rightarrow> ''tar'' | Some t \<Rightarrow> t);
          extraction =
            (if endsWith (archivePath opts) ''.tar.gz''
               then runCommand spawn tar [''-xzf'', archivePath opts, ''-C'', tempDir opts]
             else if endsWith (archivePath opts) ''.tar.xz''
               then runCommand spawn tar [''-xJf'', archivePath opts, ''-C'', tempDir opts]
             else if endsWith (archivePath opts) ''.zip''
               then (if extract_platform opts = Win32
                     then runCommand spawn ''powershell''
                            [''-NoProfile'', ''-Command'',
                             ''Expand-Archive -Path '' @ [CHR 0x22] @ archivePath opts @ [CHR 0x22]
                               @ '' -DestinationPath '' @ [CHR 0x22] @ tempDir opts @ [CHR 0x22]
                               @ '' -Force'']
                     else runCommand spawn ''unzip'' [archivePath opts, ''-d'', tempDir opts])
             else Inl (Error (''Unsupported archive format: '' @ archivePath opts)))
      in case extraction of
           Inl e \<Rightarrow> Inl e
         | Inr u \<Rightarrow>
             (case locateBinary join (tempDir opts) scratch of
                None \<Rightarrow> Inl (Error ''Archive did not contain a curlpit binary'')
              | Some binaryPath \<Rightarrow>
                  if binaryPath = [] then Inl (Error ''Archive did not contain a curlpit binary'')
                  else Inr binaryPath))"

text \<open>
  The earlier npm script unpacks with the \<open>tar\<close> and \<open>adm-zip\<close> libraries (parameters:
  each returns or throws) and searches the top level of the scratch directory only,
  passing over the archive itself. It lists names and asks \<open>stat\<close> for the kind of each
  name that begins with \<open>curlpit\<close>.
\<close>

fun stat_isFile :: "string \<Rightarrow> dirent \<Rightarrow> error + bool" where
  "stat_isFile path (FileEntry n) = Inr True"
| "stat_isFile path (DirEntry n sub) = Inr False"
| "stat_isFile path (LinkEntry n ToFile) = Inr True"
| "stat_isFile path (LinkEntry n Dangling) =
     Inl (Error (''ENOENT: no such file or directory, stat '' @ quoted path))"
| "stat_isFile path (LinkEntry n t) = Inr False"
| "stat_isFile path (OtherEntry n) = Inr False"

fun legacy_scan ::
  "(string \<Rightarrow> string \<Rightarrow> string) \<Rightarrow> string \<Rightarrow> string \<Rightarrow> dirent list \<Rightarrow> error + string option" where
  "legacy_scan join dir archiveName [] = Inr None"
| "legacy_scan join dir archiveName (e # es) =
     (if entry_name e = archiveName then legacy_scan join dir archiveName es
      else if \<not> startsWith (entry_name e) ''curlpit'' then legacy_scan join dir archiveName es
      else (let candidate = join dir (entry_name e) in
            case stat_isFile candidate e of
              Inl err \<Rightarrow> Inl err
            | Inr True \<Rightarrow> Inr (Some candidate)
            | Inr False \<Rightarrow> legacy_scan join dir archiveName es))"

definition extractArchive_legacy ::
  "(string \<Rightarrow> string \<Rightarrow> string) \<Rightarrow> (string \<Rightarrow> string) \<Rightarrow> (string \<Rightarrow> string \<Rightarrow> error + unit) \<Rightarrow>
     (string \<Rightarrow> string \<Rightarrow> error + unit) \<Rightarrow> dirent list \<Rightarrow> string \<Rightarrow> string \<Rightarrow> error + string" where
  "extractArchive_legacy join basename tar_x zip_extractAllTo scratch archive temp =
     (let extraction =
            (if endsWith archive ''.tar.gz'' then tar_x archive temp
             else if endsWith archive ''.zip'' then zip_extractAllTo archive temp
             else Inl (Error (''Unsupported archive format: '' @ archive)))
      in case extraction of
           Inl e \<Rightarrow> Inl e
         | Inr u \<Rightarrow>
             (case legacy_scan join temp (basename archive) scratch of
                Inl e \<Rightarrow> Inl e
              | Inr (Some candidate) \<Rightarrow> Inr candidate
              | Inr None \<Rightarrow> Inl (Error ''Extracted archive did not contain a curlpit binary.'')))"

text \<open>
  The Deno installer runs the tools with \<open>Deno.Command\<close> and captures their output: a
  failed run throws an error whose message is the decoded standard error.
\<close>

definition run_captured :: "spawner \<Rightarrow> string \<Rightarrow> string list \<Rightarrow> error + unit" where
  "run_captured spawn command args =
     (case spawn command args of
        SpawnError e \<Rightarrow> Inl e
      | Exit code err \<Rightarrow> if code = Some 0 then Inr () else Inl (Error err))"

definition runTar :: "spawner \<Rightarrow> string option \<Rightarrow> string list \<Rightarrow> error + unit" where
  "runTar spawn TAR_PATH args =
     run_captured spawn (case TAR_PATH of None \<Rightarrow> ''tar'' | Some t \<Rightarrow> t) args"

fun deno_scan :: "(string \<Rightarrow> string \<Rightarrow> string) \<Rightarrow> string \<Rightarrow> dirent list \<Rightarrow> string option" where
  "deno_scan join temp [] = None"
| "deno_scan join temp (FileEntry n # es) =
     (if startsWith n ''curlpit'' then Some (join temp n) else deno_scan join temp es)"
| "deno_scan join temp (e # es) = deno_scan join temp es"

definition extractArchive_deno ::
  "(string \<Rightarrow> string \<Rightarrow> string) \<Rightarrow> spawner \<Rightarrow> string option \<Rightarrow> dirent list \<Rightarrow>
     string \<Rightarrow> string \<Rightarrow> bool \<Rightarrow> error + string" where
  "extractArchive_deno join spawn TAR_PATH scratch archive temp isWindows =
     (let extraction =
            (if endsWith archive ''.tar.gz'' then runTar spawn TAR_PATH [''-xzf'', archive, ''-C'', temp]
             else if endsWith archive ''.tar.xz'' then runTar spawn TAR_PATH [''-xJf'', archive, ''-C'', temp]
             else if endsWith archive ''.zip''
               then (if isWindows
                     then run_captured spawn ''powershell''
                            [''-NoProfile'', ''-Command'',
                             ''Expand-Archive -Path '' @ [CHR 0x22] @ archive @ [CHR 0x22]
                               @ '' -DestinationPath '' @ [CHR 0x22] @ temp @ [CHR 0x22]
                               @ '' -Force'']
                     else run_captured spawn ''unzip'' [archive, ''-d'', temp])
             else Inl (Error (''Unsupported archive format: '' @ archive)))
      in case extraction of
           Inl e \<Rightarrow> Inl e
         | Inr u \<Rightarrow>
             (case deno_scan join temp scratch of
                Some p \<Rightarrow> Inr p
              | None \<Rightarrow> Inl (Error ''Archive did not contain a curlpit binary'')))"

text \<open>
  The search as the specification words it: the regular files whose name begins with
  \<open>curlpit\<close>, in depth-first order, directories descended into where they stand.
\<close>

fun dfs_candidates :: "(string \<Rightarrow> string \<Rightarrow> string) \<Rightarrow> string \<Rightarrow> dirent list \<Rightarrow> string list" where
  "dfs_candidates join dir [] = []"
| "dfs_candidates join dir (FileEntry n # es) =
     (if startsWith n ''curlpit'' then [join dir n] else []) @ dfs_candidates join dir es"
| "dfs_candidates join dir (DirEntry n sub # es) =
     dfs_candidates join (join dir n) sub @ dfs_candidates join dir es"
| "dfs_candidates join dir (LinkEntry n t # es) = dfs_candidates join dir es"
| "dfs_candidates join dir (OtherEntry n # es) = dfs_candidates join dir es"

section \<open>Properties of the normaliser and the release planner\<close>

lemmas table_defs = js_get_def PLATFORM_ALIASES_def ARCH_ALIASES_def toLowerCase_def
  toLowerChar_def TARGET_MATRIX_def object_prototype_keys_def

lemmas normalize_defs = normalizePlatformOrThrow_def normalizeArchOrThrow_def
  normalizePlatform_def normalizeArch_def

lemmas url_defs = release_tag_def strip_trailing_slash_def startsWith_def endsWith_def
  suffix_to_prefix

lemma truthy_iff: "truthy l \<longleftrightarrow> l \<noteq> Undefined"
  by (cases l) simp_all

lemma resolveTarget_Undefined [simp]:
  "resolveTarget Undefined a = None" "resolveTarget p Undefined = None"
  by (cases a; simp) (cases p; simp)

lemma lower_nonempty: "toLowerCase s = c # cs \<Longrightarrow> s \<noteq> []"
  by (auto simp: toLowerCase_def)

text \<open>
  The alias tables are read case-insensitively: every spelling whose lower case is an
  alias gives the alias's tag.
\<close>

lemma normalizeArch_aliases:
  "toLowerCase s \<in> {''x86_64'', ''amd64'', ''x64''} \<Longrightarrow> normalizeArch (Some s) = Own X64"
  "toLowerCase s \<in> {''aarch64'', ''arm64''} \<Longrightarrow> normalizeArch (Some s) = Own Arm64"
  by (auto simp: normalizeArch_def js_get_def ARCH_ALIASES_def dest: lower_nonempty)

lemma normalizePlatform_aliases:
  "toLowerCase s \<in> {''darwin'', ''macos'', ''macosx'', ''osx''} \<Longrightarrow> normalizePlatform (Some s) = Own Darwin"
  "toLowerCase s = ''linux'' \<Longrightarrow> normalizePlatform (Some s) = Own Linux"
  "toLowerCase s \<in> {''win32'', ''windows''} \<Longrightarrow> normalizePlatform (Some s) = Own Win32"
  by (auto simp: normalizePlatform_def js_get_def PLATFORM_ALIASES_def dest: lower_nonempty)

text \<open>
  A string that is neither an alias nor the name of a member of \<open>Object.prototype\<close>
  gives \<open>undefined\<close>.
\<close>

lemma normalizePlatform_unknown:
  "toLowerCase s \<notin> fst ` set PLATFORM_ALIASES \<Longrightarrow> toLowerCase s \<notin> set object_prototype_keys
     \<Longrightarrow> normalizePlatform (Some s) = Undefined"
  by (auto simp: normalizePlatform_def js_get_def split: option.splits dest: map_of_SomeD
      intro: rev_image_eqI)

lemma normalizeArch_unknown:
  "toLowerCase s \<notin> fst ` set ARCH_ALIASES \<Longrightarrow> toLowerCase s \<notin> set object_prototype_keys
     \<Longrightarrow> normalizeArch (Some s) = Undefined"
  by (auto simp: normalizeArch_def js_get_def split: option.splits dest: map_of_SomeD
      intro: rev_image_eqI)

text \<open>
  Claim C1. For platform \<open>linux\<close>, architecture \<open>x86_64\<close>, version \<open>0.2.7\<close>, repository
  \<open>curlpit-sh/cli\<close> and the default base URL \<open>https://github.com\<close>, \<open>planRelease\<close>
  returns a plan whose artifact URL is
  \<open>https://github.com/curlpit-sh/cli/releases/download/v0.2.7/curlpit-x86_64-unknown-linux-gnu.tar.xz\<close>
  and whose checksum URL is that string followed by \<open>.sha256\<close>.
\<close>

theorem C1_planRelease_linux_x86_64:
  "\<exists>plan. planRelease \<lparr>platform = ''linux'', arch = ''x86_64'', version = ''0.2.7'',
       baseUrl = ''https://github.com'', repo = ''curlpit-sh/cli''\<rparr> = Inr plan
     \<and> artifactUrl plan =
         ''https://github.com/curlpit-sh/cli/releases/download/v0.2.7/curlpit-x86_64-unknown-linux-gnu.tar.xz''
     \<and> checksumUrl plan =
         ''https://github.com/curlpit-sh/cli/releases/download/v0.2.7/curlpit-x86_64-unknown-linux-gnu.tar.xz''
           @ ''.sha256''"
  by (simp add: planRelease_def normalize_defs table_defs url_defs)

text \<open>
  Claim C3, as stated: every pair that does not resolve makes \<open>planRelease\<close> throw an
  error naming exactly that pair. It fails for an unrecognised platform: the pair
  \<open>(solaris, x64)\<close> does not resolve, and the error thrown is the strict normaliser's
  \<open>Unsupported platform: solaris\<close>, in which the architecture \<open>x64\<close> does not occur.
\<close>

theorem C3_error_names_platform_only:
  "resolves ''solaris'' ''x64'' = None
   \<and> planRelease \<lparr>platform = ''solaris'', arch = ''x64'', version = ''0.2.7'',
        baseUrl = ''https://github.com'', repo = ''curlpit-sh/cli''\<rparr>
       = Inl (Error ''Unsupported platform: solaris'')
   \<and> \<not> str_includes ''Unsupported platform: solaris'' ''x64''"
proof -
  have a: "resolves ''solaris'' ''x64'' = None"
    by (simp add: resolves_def normalizePlatform_def normalizeArch_def table_defs)
  have b: "planRelease \<lparr>platform = ''solaris'', arch = ''x64'', version = ''0.2.7'',
        baseUrl = ''https://github.com'', repo = ''curlpit-sh/cli''\<rparr>
       = Inl (Error ''Unsupported platform: solaris'')"
    by (simp add: planRelease_def normalize_defs table_defs)
  have c: "\<not> str_includes ''Unsupported platform: solaris'' ''x64''"
    unfolding str_includes_def by code_simp
  show ?thesis using a b c by simp
qed

text \<open>
  Claim C3, amended. For every pair that does not resolve to a target descriptor,
  \<open>planRelease\<close> throws a configuration error, and which one follows the order of its
  checks: \<open>Unsupported platform: <platform>\<close> when \<open>normalizePlatform\<close> gives
  \<open>undefined\<close>; otherwise \<open>Unsupported architecture: <architecture>\<close> when
  \<open>normalizeArch\<close> gives \<open>undefined\<close>; otherwise
  \<open>Unsupported platform/architecture combination: <platform>/<architecture>\<close>, which
  names exactly the raw pair. \<open>planRelease\<close> is a function of its input alone: it
  reads no state and performs no effect, so no network call precedes the failure.
\<close>

theorem C3_unsupported_pair_error:
  assumes "resolves (platform i) (arch i) = None"
  shows "planRelease i = Inl (Error
           (if normalizePlatform (Some (platform i)) = Undefined
              then ''Unsupported platform: '' @ platform i
            else if normalizeArch (Some (arch i)) = Undefined
              then ''Unsupported architecture: '' @ arch i
            else ''Unsupported platform/architecture combination: ''
                   @ platform i @ ''/'' @ arch i))"
  using assms
  by (simp add: resolves_def planRelease_def normalizePlatformOrThrow_def
      normalizeArchOrThrow_def truthy_iff Let_def)

theorem C3_unsupported_pair_error_witness:
  "resolves ''win32'' ''arm64'' = None
   \<and> planRelease \<lparr>platform = ''win32'', arch = ''arm64'', version = ''0.2.7'',
        baseUrl = ''https://github.com'', repo = ''curlpit-sh/cli''\<rparr>
       = Inl (Error ''Unsupported platform/architecture combination: win32/arm64'')"
proof -
  have r: "resolves ''win32'' ''arm64'' = None"
    by (simp add: resolves_def normalizePlatform_def normalizeArch_def table_defs)
  have n: "normalizePlatform (Some ''win32'') \<noteq> Undefined"
    "normalizeArch (Some ''arm64'') \<noteq> Undefined"
    by (simp_all add: normalizePlatform_def normalizeArch_def table_defs)
  show ?thesis
    using r n C3_unsupported_pair_error [of "\<lparr>platform = ''win32'', arch = ''arm64'',
      version = ''0.2.7'', baseUrl = ''https://github.com'', repo = ''curlpit-sh/cli''\<rparr>"]
    by simp
qed

text \<open>
  The converse of the hypothesis of C3: a pair that resolves is planned, so
  \<open>planRelease\<close> fails exactly on the pairs that do not resolve.
\<close>

lemma planRelease_fails_iff: "isl (planRelease i) \<longleftrightarrow> resolves (platform i) (arch i) = None"
  by (auto simp: resolves_def planRelease_def normalizePlatformOrThrow_def
      normalizeArchOrThrow_def truthy_iff Let_def split: option.splits)

text \<open>Beyond the planner only the enumerated tags are left: a plan holds a tag of each kind.\<close>

lemma planRelease_tags:
  "planRelease i = Inr plan \<Longrightarrow> \<exists>p a. plan_platform plan = Own p \<and> plan_arch plan = Own a"
  unfolding planRelease_def Let_def
  by (auto split: sum.splits option.splits elim: resolveTarget.elims)

text \<open>A pair that resolves is planned, and the plan is made of the input in this way.\<close>

lemma resolves_Some_D:
  assumes "resolves p a = Some t"
  shows "\<exists>np na. normalizePlatform (Some p) = Own np \<and> normalizeArch (Some a) = Own na
           \<and> map_of (TARGET_MATRIX np) na = Some t"
  using assms unfolding resolves_def
  by (cases "normalizePlatform (Some p)"; cases "normalizeArch (Some a)") auto

lemma planRelease_resolved:
  assumes "resolves (platform i) (arch i) = Some t"
  shows "\<exists>np na. planRelease i =
     Inr \<lparr>plan_platform = Own np, plan_arch = Own na, target = t,
          tag = release_tag (version i),
          artifactUrl = strip_trailing_slash (baseUrl i) @ ''/'' @ repo i
             @ ''/releases/download/'' @ release_tag (version i) @ ''/'' @ artifact t,
          checksumUrl = (strip_trailing_slash (baseUrl i) @ ''/'' @ repo i
             @ ''/releases/download/'' @ release_tag (version i) @ ''/'' @ artifact t)
             @ ''.sha256''\<rparr>"
proof -
  from resolves_Some_D [OF assms] obtain np na where
    n: "normalizePlatform (Some (platform i)) = Own np" "normalizeArch (Some (arch i)) = Own na"
    and m: "map_of (TARGET_MATRIX np) na = Some t" by blast
  show ?thesis
    by (simp add: planRelease_def normalizePlatformOrThrow_def normalizeArchOrThrow_def n m Let_def)
qed

text \<open>
  Claim C4. For every version string \<open>v\<close> (with a pair that resolves, so that a plan
  is made), \<open>planRelease\<close> returns a plan whose tag is \<open>"v" + v\<close> when \<open>v\<close> does not
  start with the character \<open>v\<close>, and \<open>v\<close> itself when it does; and the tag
  normalisation is idempotent.
\<close>

theorem C4_tag_prefix_idempotent:
  assumes "resolves (platform i) (arch i) = Some t"
  shows "(\<exists>plan. planRelease i = Inr plan
            \<and> tag plan = (if startsWith (version i) ''v'' then version i else ''v'' @ version i))
         \<and> release_tag (release_tag v) = release_tag v"
  using planRelease_resolved [OF assms]
  by (auto simp: release_tag_def startsWith_def)

theorem C4_tag_prefix_idempotent_witness:
  "(\<exists>plan. planRelease \<lparr>platform = ''linux'', arch = ''x86_64'', version = ''0.2.7'',
        baseUrl = ''https://github.com'', repo = ''curlpit-sh/cli''\<rparr> = Inr plan
      \<and> tag plan = ''v0.2.7'')
   \<and> (\<exists>plan. planRelease \<lparr>platform = ''linux'', arch = ''x86_64'', version = ''v0.2.7'',
        baseUrl = ''https://github.com'', repo = ''curlpit-sh/cli''\<rparr> = Inr plan
      \<and> tag plan = ''v0.2.7'')
   \<and> release_tag (release_tag ''0.2.7'') = release_tag ''0.2.7''"
proof -
  let ?t = "\<lparr>artifact = ''curlpit-x86_64-unknown-linux-gnu.tar.xz'', binaryName = ''curlpit''\<rparr>"
  have r: "resolves ''linux'' ''x86_64'' = Some ?t"
    by (simp add: resolves_def normalizePlatform_def normalizeArch_def table_defs)
  have s: "\<not> startsWith ''0.2.7'' ''v''" "startsWith ''v0.2.7'' ''v''"
    by (simp_all add: startsWith_def)
  from C4_tag_prefix_idempotent [where i = "\<lparr>platform = ''linux'', arch = ''x86_64'',
        version = ''0.2.7'', baseUrl = ''https://github.com'', repo = ''curlpit-sh/cli''\<rparr>"
        and t = ?t and v = "''0.2.7''"]
  have one: "(\<exists>plan. planRelease \<lparr>platform = ''linux'', arch = ''x86_64'', version = ''0.2.7'',
        baseUrl = ''https://github.com'', repo = ''curlpit-sh/cli''\<rparr> = Inr plan
      \<and> tag plan = ''v0.2.7'')
      \<and> release_tag (release_tag ''0.2.7'') = release_tag ''0.2.7''"
    using r s by simp
  from C4_tag_prefix_idempotent [where i = "\<lparr>platform = ''linux'', arch = ''x86_64'',
        version = ''v0.2.7'', baseUrl = ''https://github.com'', repo = ''curlpit-sh/cli''\<rparr>"
        and t = ?t and v = "''0.2.7''"]
  have two: "\<exists>plan. planRelease \<lparr>platform = ''linux'', arch = ''x86_64'', version = ''v0.2.7'',
        baseUrl = ''https://github.com'', repo = ''curlpit-sh/cli''\<rparr> = Inr plan
      \<and> tag plan = ''v0.2.7''"
    using r s by simp
  from one two show ?thesis by blast
qed

text \<open>
  Claim C10. For every install context with a supported pair and every base URL \<open>b\<close>
  that does not end in \<open>/\<close>, \<open>planRelease\<close> returns a plan for \<open>b\<close> and a plan for
  \<open>b + "/"\<close>, with the same artifact URL and the same checksum URL: one trailing slash
  is removed before the URL is joined, so a single slash separates the base from the
  repository.
\<close>

theorem C10_trailing_slash:
  assumes "\<not> endsWith b ''/''" and "resolves (platform i) (arch i) = Some t"
  shows "\<exists>plan plan'. planRelease (i\<lparr>baseUrl := b\<rparr>) = Inr plan
           \<and> planRelease (i\<lparr>baseUrl := b @ ''/''\<rparr>) = Inr plan'
           \<and> artifactUrl plan' = artifactUrl plan
           \<and> checksumUrl plan' = checksumUrl plan
           \<and> artifactUrl plan = b @ ''/'' @ repo i @ ''/releases/download/'' @ tag plan
                 @ ''/'' @ artifact t"
proof -
  have s: "strip_trailing_slash (b @ ''/'') = b" "strip_trailing_slash b = b"
    using assms(1) by (simp_all add: strip_trailing_slash_def endsWith_def)
  from planRelease_resolved [of "i\<lparr>baseUrl := b\<rparr>" t]
    planRelease_resolved [of "i\<lparr>baseUrl := b @ ''/''\<rparr>" t] assms(2)
  show ?thesis by (auto simp: s)
qed

theorem C10_trailing_slash_witness:
  "\<not> endsWith ''http://localhost:8080/mirror'' ''/''
   \<and> (\<exists>plan plan'.
        planRelease \<lparr>platform = ''darwin'', arch = ''arm64'', version = ''1.0.0'',
          baseUrl = ''http://localhost:8080/mirror'', repo = ''acme/tool''\<rparr> = Inr plan
      \<and> planRelease \<lparr>platform = ''darwin'', arch = ''arm64'', version = ''1.0.0'',
          baseUrl = ''http://localhost:8080/mirror/'', repo = ''acme/tool''\<rparr> = Inr plan'
      \<and> artifactUrl plan' = artifactUrl plan
      \<and> checksumUrl plan' = checksumUrl plan
      \<and> artifactUrl plan =
          ''http://localhost:8080/mirror/acme/tool/releases/download/v1.0.0/curlpit-aarch64-apple-darwin.tar.xz'')"
proof -
  let ?i = "\<lparr>platform = ''darwin'', arch = ''arm64'', version = ''1.0.0'',
       baseUrl = ''https://github.com'', repo = ''acme/tool''\<rparr>"
  let ?t = "\<lparr>artifact = ''curlpit-aarch64-apple-darwin.tar.xz'', binaryName = ''curlpit''\<rparr>"
  have e: "\<not> endsWith ''http://localhost:8080/mirror'' ''/''"
    by (simp add: endsWith_def suffix_to_prefix)
  have r: "resolves (platform ?i) (arch ?i) = Some ?t"
    by (simp add: resolves_def normalizePlatform_def normalizeArch_def table_defs)
  from C10_trailing_slash [OF e r] obtain plan plan' where
    p: "planRelease (?i\<lparr>baseUrl := ''http://localhost:8080/mirror''\<rparr>) = Inr plan"
       "planRelease (?i\<lparr>baseUrl := ''http://localhost:8080/mirror'' @ ''/''\<rparr>) = Inr plan'"
       "artifactUrl plan' = artifactUrl plan" "checksumUrl plan' = checksumUrl plan"
       "artifactUrl plan = ''http://localhost:8080/mirror'' @ ''/'' @ repo ?i
          @ ''/releases/download/'' @ tag plan @ ''/'' @ artifact ?t"
    by blast
  have t: "tag plan = ''v1.0.0''"
    using p(1) planRelease_resolved [of "?i\<lparr>baseUrl := ''http://localhost:8080/mirror''\<rparr>" ?t] r
    by (auto simp: release_tag_def startsWith_def)
  from p t e show ?thesis
    by (intro conjI exI [of _ plan] exI [of _ plan']) simp_all
qed

text \<open>
  Claim C8. \<open>normalizePlatform\<close> and \<open>normalizeArch\<close> never throw, and the aliases are
  read case-insensitively (lemmas \<open>normalizePlatform_aliases\<close> and
  \<open>normalizeArch_aliases\<close> above). What fails is "unrecognised input gives
  \<open>undefined\<close>": the alias tables are object literals, so the strings \<open>constructor\<close>
  and \<open>__proto__\<close> (in any letter case) are found on \<open>Object.prototype\<close>. The value
  returned is truthy and is no tag, and the strict variant lets it through.
\<close>

theorem C8_inherited_member_not_undefined:
  "normalizePlatform (Some ''constructor'') = Inherited ''constructor''
   \<and> normalizeArch (Some ''__PROTO__'') = Inherited ''__proto__''
   \<and> normalizePlatformOrThrow ''constructor'' = Inr (Inherited ''constructor'')
   \<and> normalizeArchOrThrow ''__PROTO__'' = Inr (Inherited ''__proto__'')"
  by (simp add: normalize_defs table_defs)

section \<open>Properties of checksum verification and of the local-binary install\<close>



lemma digest_hex_length: "length (digest_hex bs) = 2 * length bs"
  unfolding digest_hex_def byte_hex_def by (induction bs) auto



text \<open>
  Facts about the file system: what can be reached depends only on the directories
  above a path, and \<open>mkdir\<close> only adds directories, at the path and above it.
\<close>

declare reachable.simps [simp del] mkdir_recursive.simps [simp del]

lemma node_at_update:
  "node_at (w\<lparr>files := (files w)(k \<mapsto> n)\<rparr>) q
     = (if q = ''/'' then Some (Directory 365) else if q = k then Some n else node_at w q)"
  by (simp add: node_at_def)

lemma reachable_cong_shallow:
  "(\<forall>q. path_depth q < path_depth p \<longrightarrow> node_at w' q = node_at w q)
     \<Longrightarrow> reachable w' p = reachable w p"
proof (induction w p rule: reachable.induct)
  case (1 w p)
  show ?case
  proof (cases "p = ''/'' \<or> p = []")
    case True
    then show ?thesis by (simp add: reachable.simps)
  next
    case False
    then have d: "path_depth (posix_dirname p) < path_depth p"
      by (simp add: posix_dirname_depth)
    with "1.prems" have n: "node_at w' (posix_dirname p) = node_at w (posix_dirname p)" by blast
    show ?thesis
    proof (cases "node_at w (posix_dirname p)")
      case None
      with False n show ?thesis by (simp add: reachable.simps [of _ p])
    next
      case (Some nd)
      show ?thesis
      proof (cases nd)
        case (File c m)
        with Some False n show ?thesis by (simp add: reachable.simps [of _ p])
      next
        case (Directory m)
        have "reachable w' (posix_dirname p) = reachable w (posix_dirname p)"
          using "1.IH" [OF False Some Directory] "1.prems" d by auto
        with Some Directory False n show ?thesis by (simp add: reachable.simps [of _ p])
      qed
    qed
  qed
qed

lemma reachable_mono:
  "(\<forall>q n. node_at w q = Some n \<longrightarrow> node_at w' q = Some n)
     \<Longrightarrow> reachable w p \<Longrightarrow> reachable w' p"
proof (induction w p rule: reachable.induct)
  case (1 w p)
  show ?case
  proof (cases "p = ''/'' \<or> p = []")
    case True
    then show ?thesis by (simp add: reachable.simps)
  next
    case False
    from "1.prems"(2) False obtain m where
      n: "node_at w (posix_dirname p) = Some (Directory m)" and x: "owner_executable m"
      and r: "reachable w (posix_dirname p)"
      by (auto simp: reachable.simps [of w p] split: option.splits node.splits)
    from "1.IH" [OF False n] "1.prems"(1) r have "reachable w' (posix_dirname p)" by blast
    moreover from "1.prems"(1) n have "node_at w' (posix_dirname p) = Some (Directory m)" by blast
    ultimately show ?thesis using False x by (simp add: reachable.simps [of w' p])
  qed
qed

lemma mkdir_changes:
  "mkdir_recursive w p = (r, w1) \<Longrightarrow>
     busy w1 = busy w \<and> console w1 = console w
     \<and> (\<forall>k. files w1 k = files w k
            \<or> (files w k = None \<and> files w1 k = Some (Directory 493)
                \<and> path_depth k \<le> path_depth p))"
proof (induction w p arbitrary: r w1 rule: mkdir_recursive.induct)
  case (1 w p)
  show ?case
  proof (cases "node_at w p")
    case (Some nd)
    with "1.prems" show ?thesis
      by (cases nd) (auto simp: mkdir_recursive.simps [of w p] split: if_splits)
  next
    case None
    show ?thesis
    proof (cases "p = []")
      case True
      with None "1.prems" show ?thesis by (auto simp: mkdir_recursive.simps [of w "[]"])
    next
      case False
      from None have pr: "p \<noteq> ''/''" "files w p = None"
        by (auto simp: node_at_def split: if_splits)
      from pr False have d: "path_depth (posix_dirname p) < path_depth p"
        by (simp add: posix_dirname_depth)
      obtain r0 w0 where rec: "mkdir_recursive w (posix_dirname p) = (r0, w0)"
        by (cases "mkdir_recursive w (posix_dirname p)")
      from "1.IH" [OF None False rec] have
        ih: "busy w0 = busy w" "console w0 = console w"
        "\<forall>k. files w0 k = files w k
            \<or> (files w k = None \<and> files w0 k = Some (Directory 493)
                \<and> path_depth k \<le> path_depth (posix_dirname p))"
        by auto
      have w1: "w1 = w0 \<or> w1 = w0\<lparr>files := (files w0)(p \<mapsto> Directory 493)\<rparr>"
        using "1.prems" None False rec
        by (auto simp: mkdir_recursive.simps [of w p] split: sum.splits option.splits
            node.splits if_splits)
      have p0: "files w0 p = None"
        using ih(3) [rule_format, of p] pr d by auto
      from w1 show ?thesis
      proof
        assume "w1 = w0"
        with ih d show ?thesis by (auto intro: order_trans less_imp_le dest: spec)
      next
        assume e: "w1 = w0\<lparr>files := (files w0)(p \<mapsto> Directory 493)\<rparr>"
        have "files w1 k = files w k
            \<or> (files w k = None \<and> files w1 k = Some (Directory 493)
                \<and> path_depth k \<le> path_depth p)" for k
        proof (cases "k = p")
          case True
          with e pr show ?thesis by simp
        next
          case False
          with e have "files w1 k = files w0 k" by simp
          with ih(3) [rule_format, of k] d show ?thesis by auto
        qed
        with e ih show ?thesis by simp
      qed
    qed
  qed
qed

lemma mkdir_node_mono:
  assumes "mkdir_recursive w p = (r, w1)" and "node_at w q = Some n"
  shows "node_at w1 q = Some n"
  using mkdir_changes [OF assms(1)] assms(2)
  by (auto simp: node_at_def split: if_splits dest!: spec [of _ q])

lemma mkdir_reachable_mono:
  assumes "mkdir_recursive w p = (r, w1)" and "reachable w q"
  shows "reachable w1 q"
  using reachable_mono [of w w1 q] mkdir_node_mono [OF assms(1)] assms(2) by blast

lemma mkdir_deeper_unchanged:
  assumes "mkdir_recursive w p = (r, w1)" and "path_depth p < path_depth q"
  shows "node_at w1 q = node_at w q"
  using mkdir_changes [OF assms(1)] assms(2)
  by (auto simp: node_at_def dest!: spec [of _ q])

lemma mkdir_success:
  "mkdir_recursive w p = (Inr u, w1) \<Longrightarrow>
     reachable w1 p
     \<and> (\<exists>m. node_at w1 p = Some (Directory m)
            \<and> (case node_at w p of None \<Rightarrow> m = 493 | Some n \<Rightarrow> n = Directory m))"
proof (induction w p arbitrary: u w1 rule: mkdir_recursive.induct)
  case (1 w p)
  show ?case
  proof (cases "node_at w p")
    case (Some nd)
    with "1.prems" show ?thesis
      by (cases nd) (auto simp: mkdir_recursive.simps [of w p] split: if_splits)
  next
    case None
    from None have pr: "p \<noteq> ''/''" "files w p = None"
      by (auto simp: node_at_def split: if_splits)
    from "1.prems" None have ne: "p \<noteq> []"
      by (auto simp: mkdir_recursive.simps [of w p] split: if_splits)
    from pr ne have d: "path_depth (posix_dirname p) < path_depth p"
      by (simp add: posix_dirname_depth)
    from "1.prems" None ne obtain u0 w0 m where
      rec: "mkdir_recursive w (posix_dirname p) = (Inr u0, w0)"
      and n0: "node_at w0 (posix_dirname p) = Some (Directory m)"
      and perm: "writable m" "owner_executable m"
      and e: "w1 = w0\<lparr>files := (files w0)(p \<mapsto> Directory 493)\<rparr>"
      by (auto simp: mkdir_recursive.simps [of w p] split: sum.splits option.splits
          node.splits if_splits prod.splits)
    from "1.IH" [OF None ne rec] have r0: "reachable w0 (posix_dirname p)" by blast
    have dp: "posix_dirname p \<noteq> p" using d by auto
    have same: "node_at w1 q = node_at w0 q" if "path_depth q < path_depth p" for q
      using that e by (auto simp: node_at_def)
    have "reachable w1 (posix_dirname p) = reachable w0 (posix_dirname p)"
      by (rule reachable_cong_shallow) (use same d in auto)
    with r0 have r1: "reachable w1 (posix_dirname p)" by simp
    from same [OF d] n0 have n1: "node_at w1 (posix_dirname p) = Some (Directory m)" by simp
    from r1 n1 perm pr ne have "reachable w1 p" by (simp add: reachable.simps [of w1 p])
    moreover from e pr have "node_at w1 p = Some (Directory 493)" by (simp add: node_at_update)
    ultimately show ?thesis using None by simp
  qed
qed

lemma installLocalBinary_copies:
  assumes src: "reachable w s" "node_at w s = Some (File c m)" "readable m" "owner_executable m"
    and mk: "fst (ensureDir w dir) = Inr ()"
    and dperm: "\<forall>dm. node_at w dir = Some (Directory dm) \<longrightarrow> writable dm \<and> owner_executable dm"
    and par: "posix_dirname dst = dir"
    and dnode: "case node_at w dst of None \<Rightarrow> True | Some (File dc dm) \<Rightarrow> writable dm
                | Some (Directory dm) \<Rightarrow> False"
  shows "\<exists>w1 w2. ensureDir w dir = (Inr (), w1)
           \<and> copyFile w1 s dst = (Inr (), w2)
           \<and> files w2 dst = Some (File c m) \<and> reachable w2 dst
           \<and> (\<forall>mode. \<exists>w3. chmod w2 dst mode = (Inr (), w3)
                  \<and> files w3 dst = Some (File c mode) \<and> reachable w3 dst)"
proof -
  obtain w1 where e: "mkdir_recursive w dir = (Inr (), w1)"
    using mk by (cases "mkdir_recursive w dir") (auto simp: ensureDir_def)
  from mkdir_success [OF e] obtain md where
    r1: "reachable w1 dir" and n1: "node_at w1 dir = Some (Directory md)"
    and md: "case node_at w dir of None \<Rightarrow> md = 493 | Some n \<Rightarrow> n = Directory md"
    by blast
  have perm: "writable md" "owner_executable md"
    using md dperm by (auto simp: writable_def owner_executable_def split: option.splits)
  have root: "dst \<noteq> ''/''" using dnode by (auto simp: node_at_def)
  have ne: "dst \<noteq> []"
  proof
    assume "dst = []"
    with par have "dir = ''/''" by (simp add: posix_dirname_def)
    with dperm show False by (simp add: node_at_def writable_def)
  qed
  from root ne par have depth: "path_depth dir < path_depth dst"
    using posix_dirname_depth [of dst] by simp
  have s1: "reachable w1 s" "node_at w1 s = Some (File c m)"
    using mkdir_reachable_mono [OF e src(1)] mkdir_node_mono [OF e src(2)] by simp_all
  have d1: "node_at w1 dst = node_at w dst"
    by (rule mkdir_deeper_unchanged [OF e depth])
  have rd1: "reachable w1 dst"
    using root ne par n1 perm r1 by (simp add: reachable.simps [of w1 dst])
  let ?w2 = "w1\<lparr>files := (files w1)(dst \<mapsto> File c m)\<rparr>"
  have c: "copyFile w1 s dst = (Inr (), ?w2)"
    using s1 src(3) rd1 d1 dnode n1 perm par
    by (auto simp: copyFile_def split: option.splits node.splits)
  have shallow: "node_at (w1\<lparr>files := (files w1)(dst \<mapsto> nd)\<rparr>) q = node_at w1 q"
    if "path_depth q < path_depth dst" for q nd
    using that by (auto simp: node_at_def)
  have rd: "reachable (w1\<lparr>files := (files w1)(dst \<mapsto> nd)\<rparr>) dst" for nd
    using reachable_cong_shallow [of dst "w1\<lparr>files := (files w1)(dst \<mapsto> nd)\<rparr>" w1] shallow rd1
    by blast
  have ch: "\<exists>w3. chmod ?w2 dst mode = (Inr (), w3) \<and> files w3 dst = Some (File c mode)
      \<and> reachable w3 dst" for mode
    using rd [of "File c m"] rd [of "File c mode"] by (simp add: chmod_def)
  from e c rd [of "File c m"] ch show ?thesis
    by (simp add: ensureDir_def)
qed


lemmas fs_eval = installLocalBinary_def isExecutable_def access_X_OK_def ensureDir_def
  copyFile_def chmod_def node_at_def reachable.simps mkdir_recursive.simps posix_dirname_def
  posix_join_def quoted_def readable_def writable_def owner_executable_def Let_def


text \<open>
  Claim C6, as stated: for every executable source path the file is copied to
  \<open>destinationDir/binaryName\<close>. The check before the copy is \<open>access(path, X_OK)\<close>
  alone, and a path can pass it and still not be copied. A file of mode \<open>0o100\<close>
  may be executed by its owner and may not be read: the check passes, the destination
  directory is made, \<open>copyFile\<close> fails with \<open>EACCES\<close>, and nothing is copied.
\<close>

theorem C6_executable_source_not_copied:
  "isExecutable
      \<lparr>files = [''/src'' \<mapsto> Directory 493, ''/src/curlpit'' \<mapsto> File [1, 2, 3] 64,
                ''/opt'' \<mapsto> Directory 493], busy = [], console = []\<rparr>
      ''/src/curlpit''
   \<and> fst (installLocalBinary (\<lambda>p. p) posix_join
      \<lparr>files = [''/src'' \<mapsto> Directory 493, ''/src/curlpit'' \<mapsto> File [1, 2, 3] 64,
                ''/opt'' \<mapsto> Directory 493], busy = [], console = []\<rparr>
      ''/src/curlpit'' ''/opt/bin'' ''curlpit'' True)
     = Inl (Error (''EACCES: permission denied, copyfile '' @ quoted ''/src/curlpit''
                    @ '' -> '' @ quoted ''/opt/bin/curlpit''))
   \<and> files (snd (installLocalBinary (\<lambda>p. p) posix_join
      \<lparr>files = [''/src'' \<mapsto> Directory 493, ''/src/curlpit'' \<mapsto> File [1, 2, 3] 64,
                ''/opt'' \<mapsto> Directory 493], busy = [], console = []\<rparr>
      ''/src/curlpit'' ''/opt/bin'' ''curlpit'' True)) ''/opt/bin'' = Some (Directory 493)
   \<and> files (snd (installLocalBinary (\<lambda>p. p) posix_join
      \<lparr>files = [''/src'' \<mapsto> Directory 493, ''/src/curlpit'' \<mapsto> File [1, 2, 3] 64,
                ''/opt'' \<mapsto> Directory 493], busy = [], console = []\<rparr>
      ''/src/curlpit'' ''/opt/bin'' ''curlpit'' True)) ''/opt/bin/curlpit'' = None"
  by (simp add: fs_eval)


text \<open>A directory that may be searched passes the check too, and the copy fails after \<open>mkdir\<close>.\<close>

lemma directory_source_passes_the_check:
  "isExecutable
      \<lparr>files = [''/src'' \<mapsto> Directory 493, ''/opt'' \<mapsto> Directory 493], busy = [], console = []\<rparr>
      ''/src''
   \<and> isl (fst (installLocalBinary (\<lambda>p. p) posix_join
      \<lparr>files = [''/src'' \<mapsto> Directory 493, ''/opt'' \<mapsto> Directory 493], busy = [], console = []\<rparr>
      ''/src'' ''/opt/bin'' ''curlpit'' True))
   \<and> files (snd (installLocalBinary (\<lambda>p. p) posix_join
      \<lparr>files = [''/src'' \<mapsto> Directory 493, ''/opt'' \<mapsto> Directory 493], busy = [], console = []\<rparr>
      ''/src'' ''/opt/bin'' ''curlpit'' True)) ''/opt/bin'' = Some (Directory 493)"
  by (simp add: fs_eval)


text \<open>
  Claim C6, amended. For every source path that fails the \<open>X_OK\<close> check (missing, or
  not executable by the caller), \<open>installLocalBinary\<close> fails with the error
  \<open>Local binary not found or not executable: <path>\<close> before anything is made or
  copied, and the whole file system is as it was. For every source that is a regular
  file the caller may read and execute, where the destination directory is there or
  can be made and may be written to, and the destination path is not a directory nor a
  file the caller may not write, it copies the file to \<open>join destinationDir binaryName\<close>
  with the same bytes, and sets its mode to \<open>0o755\<close> when \<open>makeExecutable\<close> is set
  (the source's mode otherwise); the installed file is executable.
\<close>

theorem C6_installLocalBinary:
  "(\<not> isExecutable w (resolve src) \<longrightarrow>
       installLocalBinary resolve join w src dir name mk
         = (Inl (Error (''Local binary not found or not executable: '' @ resolve src)), w))
   \<and> (reachable w (resolve src) \<and> node_at w (resolve src) = Some (File c m)
        \<and> readable m \<and> owner_executable m
        \<and> fst (ensureDir w dir) = Inr ()
        \<and> (\<forall>dm. node_at w dir = Some (Directory dm) \<longrightarrow> writable dm \<and> owner_executable dm)
        \<and> posix_dirname (join dir name) = dir
        \<and> (case node_at w (join dir name) of
              None \<Rightarrow> True
            | Some (File dc dm) \<Rightarrow> writable dm
            | Some (Directory dm) \<Rightarrow> False) \<longrightarrow>
       (\<exists>w'. installLocalBinary resolve join w src dir name mk = (Inr (join dir name), w')
          \<and> files w' (join dir name) = Some (File c (if mk then 493 else m))
          \<and> isExecutable w' (join dir name)))"
proof (intro conjI impI)
  assume "\<not> isExecutable w (resolve src)"
  then show "installLocalBinary resolve join w src dir name mk
         = (Inl (Error (''Local binary not found or not executable: '' @ resolve src)), w)"
    by (simp add: installLocalBinary_def Let_def)
next
  assume h: "reachable w (resolve src) \<and> node_at w (resolve src) = Some (File c m)
        \<and> readable m \<and> owner_executable m
        \<and> fst (ensureDir w dir) = Inr ()
        \<and> (\<forall>dm. node_at w dir = Some (Directory dm) \<longrightarrow> writable dm \<and> owner_executable dm)
        \<and> posix_dirname (join dir name) = dir
        \<and> (case node_at w (join dir name) of
              None \<Rightarrow> True
            | Some (File dc dm) \<Rightarrow> writable dm
            | Some (Directory dm) \<Rightarrow> False)"
  then have x: "isExecutable w (resolve src)"
    by (simp add: isExecutable_def access_X_OK_def)
  from h installLocalBinary_copies [of w "resolve src" c m dir "join dir name"]
  obtain w1 w2 where
    e: "ensureDir w dir = (Inr (), w1)" and cp: "copyFile w1 (resolve src) (join dir name) = (Inr (), w2)"
    and f2: "files w2 (join dir name) = Some (File c m)" "reachable w2 (join dir name)"
    and ch: "\<forall>mode. \<exists>w3. chmod w2 (join dir name) mode = (Inr (), w3)
                  \<and> files w3 (join dir name) = Some (File c mode) \<and> reachable w3 (join dir name)"
    by blast
  from h have nr: "join dir name \<noteq> ''/''" by (auto simp: node_at_def)
  show "\<exists>w'. installLocalBinary resolve join w src dir name mk = (Inr (join dir name), w')
          \<and> files w' (join dir name) = Some (File c (if mk then 493 else m))
          \<and> isExecutable w' (join dir name)"
  proof (cases mk)
    case True
    from ch obtain w3 where c3: "chmod w2 (join dir name) 493 = (Inr (), w3)"
      "files w3 (join dir name) = Some (File c 493)" "reachable w3 (join dir name)" by blast
    with x e cp True nr show ?thesis
      by (simp add: installLocalBinary_def Let_def isExecutable_def access_X_OK_def node_at_def
          owner_executable_def)
  next
    case False
    with x e cp f2 h nr show ?thesis
      by (simp add: installLocalBinary_def Let_def isExecutable_def access_X_OK_def node_at_def)
  qed
qed

theorem C6_installLocalBinary_witness:
  "installLocalBinary (\<lambda>p. p) posix_join
      \<lparr>files = [''/src'' \<mapsto> Directory 493, ''/src/curlpit'' \<mapsto> File [1, 2, 3] 420,
                ''/opt'' \<mapsto> Directory 493], busy = [], console = []\<rparr>
      ''/src/curlpit'' ''/opt/bin'' ''curlpit'' True
     = (Inl (Error ''Local binary not found or not executable: /src/curlpit''),
        \<lparr>files = [''/src'' \<mapsto> Directory 493, ''/src/curlpit'' \<mapsto> File [1, 2, 3] 420,
                ''/opt'' \<mapsto> Directory 493], busy = [], console = []\<rparr>)
   \<and> (\<exists>w'. installLocalBinary (\<lambda>p. p) posix_join
          \<lparr>files = [''/src'' \<mapsto> Directory 493, ''/src/curlpit'' \<mapsto> File [1, 2, 3] 320,
                    ''/opt'' \<mapsto> Directory 493], busy = [], console = []\<rparr>
          ''/src/curlpit'' ''/opt/bin'' ''curlpit'' True = (Inr ''/opt/bin/curlpit'', w')
        \<and> files w' ''/opt/bin/curlpit'' = Some (File [1, 2, 3] 493)
        \<and> isExecutable w' ''/opt/bin/curlpit'')"
proof -
  let ?w0 = "\<lparr>files = [''/src'' \<mapsto> Directory 493, ''/src/curlpit'' \<mapsto> File [1, 2, 3] 420,
                ''/opt'' \<mapsto> Directory 493], busy = [], console = []\<rparr>"
  let ?w1 = "\<lparr>files = [''/src'' \<mapsto> Directory 493, ''/src/curlpit'' \<mapsto> File [1, 2, 3] 320,
                ''/opt'' \<mapsto> Directory 493], busy = [], console = []\<rparr>"
  have a: "\<not> isExecutable ?w0 ''/src/curlpit''"
    by (simp add: fs_eval)
  have b: "reachable ?w1 ''/src/curlpit''" "node_at ?w1 ''/src/curlpit'' = Some (File [1, 2, 3] 320)"
    "readable 320" "owner_executable 320"
    "fst (ensureDir ?w1 ''/opt/bin'') = Inr ()"
    "\<forall>dm. node_at ?w1 ''/opt/bin'' = Some (Directory dm) \<longrightarrow> writable dm \<and> owner_executable dm"
    "posix_dirname (posix_join ''/opt/bin'' ''curlpit'') = ''/opt/bin''"
    "case node_at ?w1 (posix_join ''/opt/bin'' ''curlpit'') of None \<Rightarrow> True
       | Some (File dc dm) \<Rightarrow> writable dm | Some (Directory dm) \<Rightarrow> False"
    by (simp_all add: fs_eval)
  have j: "posix_join ''/opt/bin'' ''curlpit'' = ''/opt/bin/curlpit''"
    by (simp add: posix_join_def)
  from C6_installLocalBinary [where w = ?w0 and resolve = "\<lambda>p. p" and src = "''/src/curlpit''"
      and join = posix_join and dir = "''/opt/bin''" and name = "''curlpit''" and mk = True]
  have first: "installLocalBinary (\<lambda>p. p) posix_join ?w0 ''/src/curlpit'' ''/opt/bin''
      ''curlpit'' True
      = (Inl (Error ''Local binary not found or not executable: /src/curlpit''), ?w0)"
    using a by simp
  from C6_installLocalBinary [where w = ?w1 and resolve = "\<lambda>p. p" and src = "''/src/curlpit''"
      and join = posix_join and dir = "''/opt/bin''" and name = "''curlpit''" and mk = True
      and c = "[1, 2, 3]" and m = 320]
  have second: "\<exists>w'. installLocalBinary (\<lambda>p. p) posix_join ?w1 ''/src/curlpit'' ''/opt/bin''
      ''curlpit'' True = (Inr ''/opt/bin/curlpit'', w')
      \<and> files w' ''/opt/bin/curlpit'' = Some (File [1, 2, 3] 493)
      \<and> isExecutable w' ''/opt/bin/curlpit''"
    using b unfolding j by auto
  from first second show ?thesis by blast
qed

section \<open>Properties of the cleanup, the subprocesses and the binary search\<close>

lemma cleanupTemp_console: "console (cleanupTemp w d) = console w"
  by (simp add: cleanupTemp_def rm_recursive_force_def)

text \<open>A refused removal of a directory that holds nothing else leaves the world as it was.\<close>

lemma rm_refused_at_the_path:
  assumes "p \<in> set (busy w)" and "\<forall>k. inside p k \<and> k \<noteq> p \<longrightarrow> files w k = None"
  shows "rm_recursive_force w p
           = (Inl (Error (''EBUSY: resource busy or locked, rm '' @ quoted p)), w)"
proof -
  have b: "\<exists>b \<in> set (busy w). inside p b"
    using assms(1) by (auto simp: inside_def)
  have "(\<lambda>k. if inside p k \<and> \<not> (\<exists>b \<in> set (busy w). inside k b) then None else files w k)
          = files w"
  proof
    fix k
    show "(if inside p k \<and> \<not> (\<exists>b \<in> set (busy w). inside k b) then None else files w k)
            = files w k"
    proof (cases "k = p")
      case True
      with assms(1) show ?thesis by (auto simp: inside_def)
    next
      case False
      with assms(2) show ?thesis by auto
    qed
  qed
  with b show ?thesis by (simp add: rm_recursive_force_def)
qed

text \<open>
  Claim C7, as stated: a failure to remove the temporary workspace is recovered and
  logged. Where the failure is recovered it is not logged: in the earlier npm script,
  with a workspace that the operating system refuses to remove, the removal fails, the
  attempt completes, and the console is as empty as before.
\<close>

theorem C7_removal_failure_not_logged:
  "fst (rm_recursive_force
          \<lparr>files = [''/tmp'' \<mapsto> Directory 511, ''/tmp/curlpit-download-Ab12'' \<mapsto> Directory 493],
            busy = [''/tmp/curlpit-download-Ab12''], console = []\<rparr>
          ''/tmp/curlpit-download-Ab12'')
     = Inl (Error (''EBUSY: resource busy or locked, rm '' @ quoted ''/tmp/curlpit-download-Ab12''))
   \<and> legacy_install_attempt (\<lambda>w. (Inr (), w)) ''/tmp/curlpit-download-Ab12''
          \<lparr>files = [''/tmp'' \<mapsto> Directory 511, ''/tmp/curlpit-download-Ab12'' \<mapsto> Directory 493],
            busy = [''/tmp/curlpit-download-Ab12''], console = []\<rparr>
     = (Completed,
          \<lparr>files = [''/tmp'' \<mapsto> Directory 511, ''/tmp/curlpit-download-Ab12'' \<mapsto> Directory 493],
            busy = [''/tmp/curlpit-download-Ab12''], console = []\<rparr>)"
proof -
  let ?w = "\<lparr>files = [''/tmp'' \<mapsto> Directory 511, ''/tmp/curlpit-download-Ab12'' \<mapsto> Directory 493],
            busy = [''/tmp/curlpit-download-Ab12''], console = []\<rparr>"
  have "\<forall>k. inside ''/tmp/curlpit-download-Ab12'' k \<and> k \<noteq> ''/tmp/curlpit-download-Ab12''
          \<longrightarrow> files ?w k = None"
    by (auto simp: inside_def)
  then have "rm_recursive_force ?w ''/tmp/curlpit-download-Ab12''
      = (Inl (Error (''EBUSY: resource busy or locked, rm '' @ quoted ''/tmp/curlpit-download-Ab12'')), ?w)"
    by (intro rm_refused_at_the_path) simp_all
  then show ?thesis
    by (simp add: legacy_install_attempt_def cleanupTemp_def)
qed

text \<open>
  Claim C7, amended. In the installers that guard the removal (\<open>cleanupTemp\<close> of the
  earlier npm script, and the \<open>finally\<close> block of the Deno installer), a failure to
  remove the temporary workspace is caught and dropped without a log line: how the
  attempt ends depends on the outcome of its body alone, and after a body that returned
  the console is as the body left it.
\<close>

theorem C7_guarded_cleanup:
  "fst (legacy_install_attempt body d w)
     = (case fst (body w) of Inl e \<Rightarrow> Exited 1 | Inr u \<Rightarrow> Completed)
   \<and> fst (deno_install_attempt body d w)
     = (case fst (body w) of Inl e \<Rightarrow> Exited 1 | Inr u \<Rightarrow> Completed)
   \<and> (case body w of
        (Inl e, w1) \<Rightarrow> True
      | (Inr u, w1) \<Rightarrow>
          console (snd (legacy_install_attempt body d w)) = console w1
          \<and> console (snd (deno_install_attempt body d w)) = console w1)"
  by (auto simp: legacy_install_attempt_def deno_install_attempt_def cleanupTemp_def
      deno_remove_recursive_def rm_recursive_force_def split: prod.splits sum.splits)

text \<open>
  The npm installer of \<open>packages/npm\<close> has no such guard: \<open>cleanup\<close> rejects when \<open>rm\<close>
  does, and after an installation that succeeded the process ends with status 1.
\<close>

lemma npm_cleanup_failure_ends_with_status_1:
  "npm_install_attempt (\<lambda>w. (Inr (), w)) ''/tmp/curlpit-npm-Ab12''
          \<lparr>files = [''/tmp'' \<mapsto> Directory 511, ''/tmp/curlpit-npm-Ab12'' \<mapsto> Directory 493],
            busy = [''/tmp/curlpit-npm-Ab12''], console = []\<rparr>
     = (Exited 1,
          \<lparr>files = [''/tmp'' \<mapsto> Directory 511, ''/tmp/curlpit-npm-Ab12'' \<mapsto> Directory 493],
            busy = [''/tmp/curlpit-npm-Ab12''],
            console = [''Unexpected error during curlpit installation: EBUSY: resource busy or locked, rm ''
              @ quoted ''/tmp/curlpit-npm-Ab12'']\<rparr>)"
proof -
  let ?w = "\<lparr>files = [''/tmp'' \<mapsto> Directory 511, ''/tmp/curlpit-npm-Ab12'' \<mapsto> Directory 493],
            busy = [''/tmp/curlpit-npm-Ab12''], console = []\<rparr>"
  have "\<forall>k. inside ''/tmp/curlpit-npm-Ab12'' k \<and> k \<noteq> ''/tmp/curlpit-npm-Ab12''
          \<longrightarrow> files ?w k = None"
    by (auto simp: inside_def)
  then have "rm_recursive_force ?w ''/tmp/curlpit-npm-Ab12''
      = (Inl (Error (''EBUSY: resource busy or locked, rm '' @ quoted ''/tmp/curlpit-npm-Ab12'')), ?w)"
    by (intro rm_refused_at_the_path) simp_all
  then show ?thesis
    by (simp add: npm_install_attempt_def cleanup_def console_log_def)
qed

lemmas extract_defs = extractArchive_def runCommand_def endsWith_def startsWith_def
  suffix_to_prefix posix_join_def

text \<open>
  Claim C9, as stated: the error of a tool that exits with a code other than 0 carries
  the tool's standard-error text. In the shared extractor it does not: \<open>tar\<close> exits
  with code 2 after writing \<open>tar: Unexpected EOF in archive\<close>, and the error is
  \<open>tar exited with code 2\<close>.
\<close>

theorem C9_stderr_not_carried:
  "extractArchive posix_join (\<lambda>c a. Exit (Some 2) ''tar: Unexpected EOF in archive'') []
      \<lparr>archivePath = ''/tmp/curlpit-npm-Ab12/curlpit-x86_64-unknown-linux-gnu.tar.xz'',
       tempDir = ''/tmp/curlpit-npm-Ab12'', extract_platform = Linux, tarPath = None\<rparr>
     = Inl (Error ''tar exited with code 2'')
   \<and> \<not> str_includes ''tar exited with code 2'' ''tar: Unexpected EOF in archive''"
proof -
  have a: "extractArchive posix_join (\<lambda>c a. Exit (Some 2) ''tar: Unexpected EOF in archive'') []
      \<lparr>archivePath = ''/tmp/curlpit-npm-Ab12/curlpit-x86_64-unknown-linux-gnu.tar.xz'',
       tempDir = ''/tmp/curlpit-npm-Ab12'', extract_platform = Linux, tarPath = None\<rparr>
     = Inl (Error ''tar exited with code 2'')"
    by (simp add: extract_defs)
  have b: "\<not> str_includes ''tar exited with code 2'' ''tar: Unexpected EOF in archive''"
    unfolding str_includes_def by code_simp
  from a b show ?thesis by simp
qed

text \<open>
  Claim C9, amended. For every external extraction tool (\<open>tar\<close>, \<open>unzip\<close>, PowerShell's
  \<open>Expand-Archive\<close>), an exit with a code other than 0 is a failure of the call and of
  the extraction, never passed over. In the shared extractor the error's message is
  \<open><command> exited with code <code>\<close> (the tool's standard error goes to the
  installer's own, inherited, stream); in the Deno installer the error's message is the
  tool's standard-error text.
\<close>

theorem C9_nonzero_exit_is_failure:
  "(spawn command args = Exit code err \<and> code \<noteq> Some 0 \<longrightarrow>
      runCommand spawn command args
        = Inl (Error (command @ '' exited with code '' @ show_code code))
      \<and> run_captured spawn command args = Inl (Error err))
   \<and> ((\<forall>c a. spawn c a = Exit code err) \<and> code \<noteq> Some 0
       \<and> (endsWith (archivePath opts) ''.tar.gz'' \<or> endsWith (archivePath opts) ''.tar.xz''
            \<or> endsWith (archivePath opts) ''.zip'') \<longrightarrow>
      (\<exists>command. extractArchive join spawn scratch opts
          = Inl (Error (command @ '' exited with code '' @ show_code code)))
      \<and> extractArchive_deno join spawn TAR_PATH scratch (archivePath opts) (tempDir opts) isWindows
          = Inl (Error err))"
  by (auto simp: runCommand_def run_captured_def runTar_def extractArchive_def
      extractArchive_deno_def Let_def)

theorem C9_nonzero_exit_is_failure_witness:
  "runCommand (\<lambda>c a. Exit (Some 2) ''unzip: cannot find zipfile directory'') ''unzip''
      [''/tmp/t/curlpit-x86_64-pc-windows-msvc.zip'', ''-d'', ''/tmp/t'']
     = Inl (Error ''unzip exited with code 2'')
   \<and> run_captured (\<lambda>c a. Exit (Some 2) ''unzip: cannot find zipfile directory'') ''unzip''
      [''/tmp/t/curlpit-x86_64-pc-windows-msvc.zip'', ''-d'', ''/tmp/t'']
     = Inl (Error ''unzip: cannot find zipfile directory'')
   \<and> extractArchive_deno posix_join (\<lambda>c a. Exit (Some 2) ''unzip: cannot find zipfile directory'')
      None [] ''/tmp/t/curlpit-x86_64-pc-windows-msvc.zip'' ''/tmp/t'' False
     = Inl (Error ''unzip: cannot find zipfile directory'')"
proof -
  let ?spawn = "\<lambda>(c::string) (a::string list). Exit (Some 2) ''unzip: cannot find zipfile directory''"
  let ?opts = "\<lparr>archivePath = ''/tmp/t/curlpit-x86_64-pc-windows-msvc.zip'', tempDir = ''/tmp/t'',
      extract_platform = Linux, tarPath = None\<rparr>"
  have s: "endsWith (archivePath ?opts) ''.zip''"
    by (simp add: endsWith_def suffix_to_prefix)
  have c: "show_code (Some 2) = ''2''" by simp
  from C9_nonzero_exit_is_failure [where spawn = ?spawn and command = "''unzip''"
      and args = "[''/tmp/t/curlpit-x86_64-pc-windows-msvc.zip'', ''-d'', ''/tmp/t'']"
      and code = "Some 2" and err = "''unzip: cannot find zipfile directory''"
      and opts = ?opts and join = posix_join and scratch = "[]" and TAR_PATH = None
      and isWindows = False]
  show ?thesis using s c by simp
qed

text \<open>
  Where \<open>join\<close> gives a path, never the empty string, the search of the shared
  extractor is the specification's: the first candidate in depth-first order.
\<close>

lemma dfs_candidates_nonempty:
  "\<forall>d n. join d n \<noteq> [] \<Longrightarrow> p \<in> set (dfs_candidates join dir es) \<Longrightarrow> p \<noteq> []"
  by (induction join dir es rule: dfs_candidates.induct) (auto split: if_splits dest: sym)

lemma locateBinary_first_candidate:
  assumes "\<forall>d n. join d n \<noteq> []"
  shows "locateBinary join dir es
           = (case dfs_candidates join dir es of [] \<Rightarrow> None | p # ps \<Rightarrow> Some p)"
  using assms
proof (induction join dir es rule: locateBinary.induct)
  case (3 join dir n sub es)
  show ?case
  proof (cases "dfs_candidates join (join dir n) sub")
    case Nil
    with 3 show ?thesis by simp
  next
    case (Cons p ps)
    with 3 dfs_candidates_nonempty [of join p "join dir n" sub] show ?thesis by simp
  qed
qed simp_all

lemma extractArchive_no_candidate:
  assumes "\<forall>c a. spawn c a = Exit (Some 0) err"
    and "endsWith (archivePath opts) ''.tar.gz'' \<or> endsWith (archivePath opts) ''.tar.xz''
          \<or> endsWith (archivePath opts) ''.zip''"
    and "\<forall>d n. join d n \<noteq> []"
    and "dfs_candidates join (tempDir opts) scratch = []"
  shows "extractArchive join spawn scratch opts
           = Inl (Error ''Archive did not contain a curlpit binary'')"
  using assms locateBinary_first_candidate [of join "tempDir opts" scratch]
  by (auto simp: extractArchive_def runCommand_def Let_def)

lemma locateBinary_nested_example:
  "locateBinary posix_join ''/t'' [FileEntry ''README.md'', OtherEntry ''curlpit.lnk'',
      DirEntry ''empty'' [], DirEntry ''a'' [DirEntry ''b'' [FileEntry ''curlpit'']],
      FileEntry ''curlpit-later'']
     = Some ''/t/a/b/curlpit''"
  by (simp add: startsWith_def posix_join_def)

text \<open>
  Claim C2. The search is recursive and depth-first, and an extraction that finds no
  candidate fails with \<open>Archive did not contain a curlpit binary\<close>; but the archive
  itself is a candidate. The installer downloads the archive into the scratch directory
  under the artifact's name, which begins with \<open>curlpit\<close>. With an archive that holds
  no binary the extraction returns the archive's own path, where the claim has it fail;
  with the archive listed before the directory that holds the binary, the archive is
  returned, not the binary. The earlier npm script passes over the archive by its base
  name and fails on the archive without a binary.
\<close>

theorem C2_archive_is_a_candidate:
  "extractArchive posix_join (\<lambda>c a. Exit (Some 0) [])
      [FileEntry ''curlpit-x86_64-unknown-linux-gnu.tar.xz'', FileEntry ''README.md'']
      \<lparr>archivePath = ''/tmp/curlpit-npm-Ab12/curlpit-x86_64-unknown-linux-gnu.tar.xz'',
       tempDir = ''/tmp/curlpit-npm-Ab12'', extract_platform = Linux, tarPath = None\<rparr>
     = Inr ''/tmp/curlpit-npm-Ab12/curlpit-x86_64-unknown-linux-gnu.tar.xz''
   \<and> extractArchive posix_join (\<lambda>c a. Exit (Some 0) [])
      [FileEntry ''curlpit-x86_64-unknown-linux-gnu.tar.xz'',
       DirEntry ''dist'' [FileEntry ''curlpit'']]
      \<lparr>archivePath = ''/tmp/curlpit-npm-Ab12/curlpit-x86_64-unknown-linux-gnu.tar.xz'',
       tempDir = ''/tmp/curlpit-npm-Ab12'', extract_platform = Linux, tarPath = None\<rparr>
     = Inr ''/tmp/curlpit-npm-Ab12/curlpit-x86_64-unknown-linux-gnu.tar.xz''
   \<and> extractArchive_legacy posix_join posix_basename
      (\<lambda>a t. Inr ()) (\<lambda>a t. Inr ())
      [FileEntry ''curlpit-x86_64-pc-windows-msvc.zip'', FileEntry ''README.md'']
      ''/tmp/curlpit-download-Ab12/curlpit-x86_64-pc-windows-msvc.zip''
      ''/tmp/curlpit-download-Ab12''
     = Inl (Error ''Extracted archive did not contain a curlpit binary.'')"
  by (simp add: extract_defs extractArchive_legacy_def posix_basename_def)

end
